theory Spec2Isabelle
  imports Main
begin

section \<open>JavaScript values\<close>

text \<open>
  The values that flow through \<^verbatim>\<open>index.js\<close>: payloads, transport errors, HTTP response
  objects and response bodies are untyped JavaScript values. An object is its list of own
  properties (the first binding of a key is the one that is read). \<open>Num n\<close> is the number
  \<open>n\<close>; JavaScript numbers are doubles, the model carries the integer-valued ones.
\<close>

datatype jsval =
    Undefined
  | Null
  | Bool bool
  | Num int
  | Str string
  | Arr "jsval list"
  | Obj "(string \<times> jsval) list"

datatype js_error =
    ReferenceError string
  | TypeError

text \<open>\<^verbatim>\<open>!x\<close> is the negation of \<open>truthy x\<close> (ToBoolean).\<close>

fun truthy :: "jsval \<Rightarrow> bool" where
  "truthy Undefined = False"
| "truthy Null = False"
| "truthy (Bool b) = b"
| "truthy (Num n) = (n \<noteq> 0)"
| "truthy (Str s) = (s \<noteq> [])"
| "truthy (Arr xs) = True"
| "truthy (Obj kvs) = True"

text \<open>\<^verbatim>\<open>x != undefined\<close> is the negation of \<open>nullish x\<close>: the loose comparison
  identifies \<^verbatim>\<open>null\<close> and \<^verbatim>\<open>undefined\<close> and nothing else.\<close>

fun nullish :: "jsval \<Rightarrow> bool" where
  "nullish Undefined = True"
| "nullish Null = True"
| "nullish v = False"

text \<open>
  \<^verbatim>\<open>x.name\<close>, for the property names the source reads (\<^verbatim>\<open>statusCode\<close>,
  \<^verbatim>\<open>statusMessage\<close>, \<^verbatim>\<open>results\<close>, \<^verbatim>\<open>length\<close>): none of them is an array index or a
  member of a built-in prototype other than the \<^verbatim>\<open>length\<close> of arrays and strings.
  Reading a property of \<^verbatim>\<open>null\<close> or \<^verbatim>\<open>undefined\<close> throws a TypeError.
  The length of a string is its number of characters (strings are taken as ASCII).
\<close>

fun get_prop :: "jsval \<Rightarrow> string \<Rightarrow> js_error + jsval" where
  "get_prop Undefined name = Inl TypeError"
| "get_prop Null name = Inl TypeError"
| "get_prop (Bool b) name = Inr Undefined"
| "get_prop (Num n) name = Inr Undefined"
| "get_prop (Str s) name = Inr (if name = ''length'' then Num (int (length s)) else Undefined)"
| "get_prop (Arr xs) name = Inr (if name = ''length'' then Num (int (length xs)) else Undefined)"
| "get_prop (Obj kvs) name = Inr (case map_of kvs name of None \<Rightarrow> Undefined | Some v \<Rightarrow> v)"

text \<open>
  \<^verbatim>\<open>x == n\<close> for a number \<open>n\<close> (IsLooselyEqual). \<^verbatim>\<open>undefined\<close> and \<^verbatim>\<open>null\<close> equal no
  number, a boolean is compared as 0 or 1, a number by value. A string or an object
  operand is first converted by the language's ToPrimitive and StringToNumber, which are
  not part of this repository: the conversion is the parameter \<open>tonum\<close>, which returns
  \<open>Inl\<close> when ToPrimitive throws, \<open>Inr None\<close> when the operand converts to no integer
  (NaN, a fraction) and \<open>Inr (Some k)\<close> when it converts to \<open>k\<close>.
\<close>

type_synonym coercion = "jsval \<Rightarrow> js_error + int option"

fun loose_eq_num :: "coercion \<Rightarrow> jsval \<Rightarrow> int \<Rightarrow> js_error + bool" where
  "loose_eq_num tonum Undefined n = Inr False"
| "loose_eq_num tonum Null n = Inr False"
| "loose_eq_num tonum (Bool b) n = Inr ((if b then 1 else 0) = n)"
| "loose_eq_num tonum (Num m) n = Inr (m = n)"
| "loose_eq_num tonum v n =
     (case tonum v of Inl e \<Rightarrow> Inl e | Inr r \<Rightarrow> Inr (r = Some n))"

text \<open>
  ToString of a number, as the template literal applies it to \<^verbatim>\<open>options.port\<close>. An integer
  of magnitude below \<open>2 ^ 53\<close> is held exactly by a JavaScript number and is printed as its
  plain decimal numeral, with a minus sign when negative; \<open>number_to_string\<close> is that
  rendering. Larger numbers are rounded to doubles and printed from their shortest digits
  (with an exponent from \<open>10 ^ 21\<close>), which is not modelled: every statement made below
  about the text of a port is made for a port of magnitude below \<open>2 ^ 53\<close>.
\<close>

fun nat_to_string :: "nat \<Rightarrow> string" where
  "nat_to_string n =
     (if n < 10 then [''0123456789'' ! n]
      else nat_to_string (n div 10) @ [''0123456789'' ! (n mod 10)])"

declare nat_to_string.simps [simp del]

definition number_to_string :: "int \<Rightarrow> string" where
  "number_to_string n =
     (if n < 0 then CHR ''-'' # nat_to_string (nat (- n)) else nat_to_string (nat n))"

text \<open>
  What the text of a port has to be, stated independently of how it is computed:
  \<open>decimal_numeral s n\<close> says that \<open>s\<close> is the decimal numeral of \<open>n\<close> (digits only, at least
  one, no leading zero except for zero itself, of value \<open>n\<close>), and \<open>integer_numeral\<close> adds
  the minus sign of a negative integer. A number has exactly one such numeral.
\<close>

definition digit_val :: "char \<Rightarrow> nat" where
  "digit_val ch = length (takeWhile (\<lambda>d. d \<noteq> ch) ''0123456789'')"

definition decimal_value :: "string \<Rightarrow> nat" where
  "decimal_value s = foldl (\<lambda>a ch. 10 * a + digit_val ch) 0 s"

definition decimal_numeral :: "string \<Rightarrow> nat \<Rightarrow> bool" where
  "decimal_numeral s n \<longleftrightarrow>
     s \<noteq> [] \<and> list_all (\<lambda>ch. ch \<in> set ''0123456789'') s
     \<and> (hd s \<noteq> CHR ''0'' \<or> s = ''0'') \<and> decimal_value s = n"

definition integer_numeral :: "string \<Rightarrow> int \<Rightarrow> bool" where
  "integer_numeral s n \<longleftrightarrow>
     (if n < 0 then s \<noteq> [] \<and> hd s = CHR ''-'' \<and> decimal_numeral (tl s) (nat (- n))
      else decimal_numeral s (nat n))"

section \<open>Configuration and the client\<close>

record credentials =
  username :: string
  password :: string

record configuration =
  server :: string
  port :: int
  auth :: credentials

text \<open>
  Configuration objects are shared by reference: a client holds the address of its
  configuration, and the store maps addresses to the objects' current contents.
\<close>

type_synonym addr = nat
type_synonym store = "addr \<Rightarrow> configuration"

text \<open>\<^verbatim>\<open>var defaultOptions = {...}\<close>: one object, allocated when the module is loaded.\<close>

definition defaultOptions :: addr where
  "defaultOptions = 0"

definition module_load :: "store \<Rightarrow> store" where
  "module_load \<sigma> = \<sigma>(defaultOptions :=
     \<lparr>server = ''127.0.0.1'', port = 17778,
      auth = \<lparr>username = ''admin'', password = ''''\<rparr>\<rparr>)"

record orion =
  options :: addr

text \<open>The constructor; \<open>None\<close> is the argument \<^verbatim>\<open>undefined\<close> (or no argument).\<close>

definition Orion :: "addr option \<Rightarrow> orion" where
  "Orion opts = \<lparr>options = (case opts of Some a \<Rightarrow> a | None \<Rightarrow> defaultOptions)\<rparr>"

definition init :: "addr option \<Rightarrow> orion" where
  "init opts = Orion opts"

definition getOptions :: "orion \<Rightarrow> addr" where
  "getOptions this = options this"

definition setOptions :: "orion \<Rightarrow> addr \<Rightarrow> orion" where
  "setOptions this opts = this\<lparr>options := opts\<rparr>"

section \<open>Helper functions\<close>

record request_options =
  json :: jsval
  auth :: credentials
  rejectUnauthorized :: bool

definition constructServerPostRequest :: "configuration \<Rightarrow> jsval \<Rightarrow> request_options" where
  "constructServerPostRequest opts payload =
     \<lparr>json = payload, auth = configuration.auth opts, rejectUnauthorized = False\<rparr>"

record addresses =
  fa :: string
  q :: string
  c :: string
  i :: string
  bd :: string

definition getFullAddress :: "configuration \<Rightarrow> addresses" where
  "getFullAddress opts =
     (let base = ''https://'' @ server opts @ '':'' @ number_to_string (port opts)
                 @ ''/SolarWinds/InformationService/v3/Json/''
      in \<lparr>fa = base,
          q = base @ ''Query'',
          c = base @ ''Create/'',
          i = base @ ''Invoke/'',
          bd = base @ ''BulkDelete''\<rparr>)"

section \<open>Client operations\<close>

text \<open>
  Each operation makes one call to the \<^verbatim>\<open>request\<close> library. The model returns that call
  (method, URL, options), or the error thrown before it is made. The callback given to
  \<^verbatim>\<open>request\<close> is the same in all seven: it passes the transport's \<^verbatim>\<open>(err, res, body)\<close> to
  \<^verbatim>\<open>_parseRequestResults\<close> together with the caller's callback.
\<close>

datatype http_method = GET | POST | DELETE

record http_request =
  meth :: http_method
  url :: string
  opts :: request_options

definition query :: "store \<Rightarrow> orion \<Rightarrow> jsval \<Rightarrow> js_error + http_request" where
  "query \<sigma> this query_obj =
     Inr \<lparr>meth = POST,
          url = q (getFullAddress (\<sigma> (options this))),
          opts = constructServerPostRequest (\<sigma> (options this)) query_obj\<rparr>"

definition update :: "store \<Rightarrow> orion \<Rightarrow> jsval \<Rightarrow> string \<Rightarrow> js_error + http_request" where
  "update \<sigma> this update_obj swisUri =
     Inr \<lparr>meth = POST,
          url = fa (getFullAddress (\<sigma> (options this))) @ swisUri,
          opts = constructServerPostRequest (\<sigma> (options this)) update_obj\<rparr>"

definition read :: "store \<Rightarrow> orion \<Rightarrow> string \<Rightarrow> js_error + http_request" where
  "read \<sigma> this swisUri =
     Inr \<lparr>meth = GET,
          url = fa (getFullAddress (\<sigma> (options this))) @ swisUri,
          opts = constructServerPostRequest (\<sigma> (options this)) (Obj [])\<rparr>"

text \<open>
  The string-valued identifiers that the body of \<^verbatim>\<open>create(data, object, callback)\<close> can
  resolve: its parameter \<^verbatim>\<open>object\<close>. The other names in scope (\<^verbatim>\<open>data\<close>, \<^verbatim>\<open>callback\<close>,
  the module's own functions and variables, the globals of Node) are bound to objects
  and functions, and none of them is called \<^verbatim>\<open>orionObject\<close>.
\<close>

definition create_scope :: "string \<Rightarrow> (string \<times> string) list" where
  "create_scope object = [(''object'', object)]"

text \<open>
  \<^verbatim>\<open>request.post(_gfa(this.options).c + orionObject, ...)\<close>: the first argument is
  evaluated before the call, and reading an identifier that is bound nowhere throws a
  ReferenceError.
\<close>

definition create :: "store \<Rightarrow> orion \<Rightarrow> jsval \<Rightarrow> string \<Rightarrow> js_error + http_request" where
  "create \<sigma> this data object =
     (case map_of (create_scope object) ''orionObject'' of
        None \<Rightarrow> Inl (ReferenceError ''orionObject'')
      | Some orionObject \<Rightarrow>
          Inr \<lparr>meth = POST,
               url = c (getFullAddress (\<sigma> (options this))) @ orionObject,
               opts = constructServerPostRequest (\<sigma> (options this)) data\<rparr>)"

definition invoke :: "store \<Rightarrow> orion \<Rightarrow> string \<Rightarrow> jsval \<Rightarrow> js_error + http_request" where
  "invoke \<sigma> this verb data =
     Inr \<lparr>meth = POST,
          url = i (getFullAddress (\<sigma> (options this))) @ verb,
          opts = constructServerPostRequest (\<sigma> (options this)) data\<rparr>"

definition remove :: "store \<Rightarrow> orion \<Rightarrow> string \<Rightarrow> js_error + http_request" where
  "remove \<sigma> this swisUri =
     Inr \<lparr>meth = DELETE,
          url = fa (getFullAddress (\<sigma> (options this))) @ swisUri,
          opts = constructServerPostRequest (\<sigma> (options this)) (Obj [])\<rparr>"

definition removeBulk :: "store \<Rightarrow> orion \<Rightarrow> jsval \<Rightarrow> js_error + http_request" where
  "removeBulk \<sigma> this swisUris =
     Inr \<lparr>meth = POST,
          url = bd (getFullAddress (\<sigma> (options this))),
          opts = constructServerPostRequest (\<sigma> (options this)) (Obj [(''uris'', swisUris)])\<rparr>"

section \<open>The response normalizer\<close>

record status_object =
  code :: jsval
  message :: jsval

record envelope =
  err :: jsval
  results :: jsval
  status :: status_object

text \<open>Sequencing of steps that may throw.\<close>

definition sbind :: "js_error + 'a \<Rightarrow> ('a \<Rightarrow> js_error + 'b) \<Rightarrow> js_error + 'b" where
  "sbind m f = (case m of Inl e \<Rightarrow> Inl e | Inr v \<Rightarrow> f v)"

text \<open>\<^verbatim>\<open>res = res != undefined ? res : {}\<close>\<close>

definition default_res :: "jsval \<Rightarrow> jsval" where
  "default_res response = (if \<not> nullish response then response else Obj [])"

text \<open>\<^verbatim>\<open>res.statusCode == 200\<close>\<close>

definition status_200 :: "coercion \<Rightarrow> jsval \<Rightarrow> js_error + bool" where
  "status_200 tonum res = sbind (get_prop res ''statusCode'') (\<lambda>sc. loose_eq_num tonum sc 200)"

text \<open>\<^verbatim>\<open>!err && res.statusCode == 200\<close>: the right operand is evaluated only when the left
  one is true.\<close>

definition success_path :: "coercion \<Rightarrow> jsval \<Rightarrow> jsval \<Rightarrow> js_error + bool" where
  "success_path tonum error res = (if \<not> truthy error then status_200 tonum res else Inr False)"

text \<open>\<^verbatim>\<open>{ code: res.statusCode, message: res.statusMessage }\<close>\<close>

definition status_of :: "jsval \<Rightarrow> js_error + status_object" where
  "status_of res =
     sbind (get_prop res ''statusCode'') (\<lambda>sc.
     sbind (get_prop res ''statusMessage'') (\<lambda>sm.
       Inr \<lparr>code = sc, message = sm\<rparr>))"

text \<open>The value of \<^verbatim>\<open>results\<close> computed on the success path.\<close>

definition success_results :: "coercion \<Rightarrow> jsval \<Rightarrow> js_error + jsval" where
  "success_results tonum body =
     sbind (if \<not> nullish body then sbind (get_prop body ''results'') (\<lambda>r. Inr (truthy r))
            else Inr False) (\<lambda>has_results.
       if has_results then
         sbind (get_prop body ''results'') (\<lambda>r.
         sbind (get_prop r ''length'') (\<lambda>len.
         sbind (loose_eq_num tonum len 0) (\<lambda>empty.
           Inr (if empty then Null else r))))
       else if \<not> nullish body then Inr body
       else Inr Undefined)"

text \<open>
  \<^verbatim>\<open>_parseRequestResults(err, res, body, callback)\<close>: the result is the envelope that the
  callback is called with, or the error thrown before the callback is reached.
\<close>

definition parseRequestResults ::
    "coercion \<Rightarrow> jsval \<Rightarrow> jsval \<Rightarrow> jsval \<Rightarrow> js_error + envelope" where
  "parseRequestResults tonum error response body =
     (let res = default_res response in
      sbind (success_path tonum error res) (\<lambda>ok.
        if ok then
          sbind (success_results tonum body) (\<lambda>rs.
          sbind (status_of res) (\<lambda>st.
            Inr \<lparr>err = Undefined, results = rs, status = st\<rparr>))
        else
          sbind (status_of res) (\<lambda>st.
            Inr \<lparr>err = (if \<not> nullish error then error else body),
                 results = Undefined,
                 status = st\<rparr>)))"

section \<open>Auxiliary facts\<close>

lemma sbind_Inr [simp]: "sbind (Inr v) f = f v"
  by (simp add: sbind_def)

lemma sbind_Inl [simp]: "sbind (Inl e) f = Inl e"
  by (simp add: sbind_def)

lemma number_to_string_examples:
  "number_to_string 17778 = ''17778''"
  "number_to_string 0 = ''0''"
  "number_to_string 443 = ''443''"
  "number_to_string (- 80) = ''-80''"
  by (simp_all add: number_to_string_def nat_to_string.simps)

text \<open>The rendering of a number is its decimal numeral.\<close>

lemma below_ten_cases:
  "(k::nat) < 10 \<Longrightarrow> k = 0 \<or> k = 1 \<or> k = 2 \<or> k = 3 \<or> k = 4 \<or> k = 5 \<or> k = 6 \<or> k = 7 \<or> k = 8 \<or> k = 9"
  by arith

lemma digit_val_table: "k < 10 \<Longrightarrow> digit_val (''0123456789'' ! k) = k"
  by (drule below_ten_cases) (auto simp: digit_val_def)

lemma digit_in_table: "k < 10 \<Longrightarrow> ''0123456789'' ! k \<in> set ''0123456789''"
  by (rule nth_mem) simp

lemma digit_zero: "k < 10 \<Longrightarrow> ''0123456789'' ! k = CHR ''0'' \<Longrightarrow> k = 0"
  using digit_val_table [of k] by (simp add: digit_val_def)

lemma nat_to_string_nonempty: "nat_to_string n \<noteq> []"
  by (subst nat_to_string.simps) simp

lemma nat_to_string_digits: "list_all (\<lambda>ch. ch \<in> set ''0123456789'') (nat_to_string n)"
proof (induction n rule: nat_to_string.induct)
  case (1 n)
  show ?case
  proof (cases "n < 10")
    case True
    then show ?thesis
      using digit_in_table [of n] by (subst nat_to_string.simps) simp
  next
    case False
    then show ?thesis
      using 1 digit_in_table [of "n mod 10"] by (subst nat_to_string.simps) simp
  qed
qed

lemma decimal_value_snoc: "decimal_value (s @ [ch]) = 10 * decimal_value s + digit_val ch"
  by (simp add: decimal_value_def)

lemma decimal_value_nat_to_string: "decimal_value (nat_to_string n) = n"
proof (induction n rule: nat_to_string.induct)
  case (1 n)
  show ?case
  proof (cases "n < 10")
    case True
    then show ?thesis
      by (subst nat_to_string.simps) (simp add: decimal_value_def digit_val_table)
  next
    case False
    then have "decimal_value (nat_to_string (n div 10)) = n div 10"
      using 1 by simp
    with False show ?thesis
      by (subst nat_to_string.simps) (simp add: decimal_value_snoc digit_val_table)
  qed
qed

lemma nat_to_string_no_leading_zero:
  "hd (nat_to_string n) \<noteq> CHR ''0'' \<or> nat_to_string n = ''0''"
proof (induction n rule: nat_to_string.induct)
  case (1 n)
  show ?case
  proof (cases "n < 10")
    case True
    then show ?thesis
      using digit_zero [of n] by (subst (1 2) nat_to_string.simps) auto
  next
    case False
    have hd: "hd (nat_to_string n) = hd (nat_to_string (n div 10))"
      using False nat_to_string_nonempty [of "n div 10"]
      by (subst nat_to_string.simps) simp
    have "nat_to_string (n div 10) \<noteq> ''0''"
    proof
      assume "nat_to_string (n div 10) = ''0''"
      then have "decimal_value (nat_to_string (n div 10)) = 0"
        by (simp add: decimal_value_def digit_val_def)
      then have "n div 10 = 0"
        by (simp add: decimal_value_nat_to_string)
      with False show False by simp
    qed
    with 1 False hd show ?thesis by simp
  qed
qed

lemma decimal_numeral_nat_to_string: "decimal_numeral (nat_to_string n) n"
  unfolding decimal_numeral_def
  using nat_to_string_nonempty nat_to_string_digits nat_to_string_no_leading_zero
    decimal_value_nat_to_string
  by blast

lemma integer_numeral_number_to_string: "integer_numeral (number_to_string n) n"
  by (simp add: integer_numeral_def number_to_string_def decimal_numeral_nat_to_string)

text \<open>A number has one decimal numeral only, so the numeral fixes the text.\<close>

lemma digit_char: "ch \<in> set ''0123456789'' \<Longrightarrow> digit_val ch < 10 \<and> ''0123456789'' ! digit_val ch = ch"
  by (auto simp: digit_val_def)

lemma digit_val_zero: "ch \<in> set ''0123456789'' \<Longrightarrow> digit_val ch = 0 \<Longrightarrow> ch = CHR ''0''"
  by (auto simp: digit_val_def)

lemma decimal_value_positive:
  "s \<noteq> [] \<Longrightarrow> list_all (\<lambda>ch. ch \<in> set ''0123456789'') s \<Longrightarrow> hd s \<noteq> CHR ''0''
   \<Longrightarrow> 0 < decimal_value s"
proof (induction s rule: rev_induct)
  case Nil
  then show ?case by simp
next
  case (snoc ch xs)
  show ?case
  proof (cases "xs = []")
    case True
    with snoc.prems have "ch \<in> set ''0123456789''" and "ch \<noteq> CHR ''0''"
      by simp_all
    then have "digit_val ch \<noteq> 0"
      using digit_val_zero by blast
    with True show ?thesis
      by (simp add: decimal_value_def)
  next
    case False
    with snoc have "0 < decimal_value xs"
      by simp
    then show ?thesis
      by (simp add: decimal_value_snoc)
  qed
qed

lemma decimal_numeral_unique: "decimal_numeral s n \<Longrightarrow> s = nat_to_string n"
proof (induction s arbitrary: n rule: rev_induct)
  case Nil
  then show ?case by (simp add: decimal_numeral_def)
next
  case (snoc ch xs)
  from snoc.prems have ch: "ch \<in> set ''0123456789''"
    and xs: "list_all (\<lambda>ch. ch \<in> set ''0123456789'') xs"
    and val: "10 * decimal_value xs + digit_val ch = n"
    and lead: "hd (xs @ [ch]) \<noteq> CHR ''0'' \<or> xs @ [ch] = ''0''"
    by (simp_all add: decimal_numeral_def decimal_value_snoc)
  from ch have d: "digit_val ch < 10" and tab: "''0123456789'' ! digit_val ch = ch"
    using digit_char by blast+
  show ?case
  proof (cases "xs = []")
    case True
    with val d tab show ?thesis
      by (subst nat_to_string.simps) (auto simp: decimal_value_def)
  next
    case False
    with lead have hd: "hd xs \<noteq> CHR ''0''"
      by auto
    then have pos: "0 < decimal_value xs"
      using False xs decimal_value_positive by blast
    have "decimal_numeral xs (decimal_value xs)"
      using False xs hd by (simp add: decimal_numeral_def)
    then have "xs = nat_to_string (decimal_value xs)"
      by (rule snoc.IH)
    moreover have "n div 10 = decimal_value xs" and "n mod 10 = digit_val ch" and "\<not> n < 10"
      using val d pos by auto
    ultimately show ?thesis
      using tab by (subst nat_to_string.simps) simp
  qed
qed

lemma truthy_not_nullish: "truthy v \<Longrightarrow> \<not> nullish v"
  by (cases v) simp_all

lemma get_prop_defined: "\<not> nullish v \<Longrightarrow> \<exists>x. get_prop v name = Inr x"
  by (cases v) simp_all

lemma get_prop_Inr_not_nullish: "get_prop v name = Inr x \<Longrightarrow> \<not> nullish v"
  by (cases v) simp_all

lemma default_res_not_nullish: "\<not> nullish (default_res r)"
  by (simp add: default_res_def)

text \<open>After the defaulting of \<^verbatim>\<open>res\<close>, building the status object never throws.\<close>

lemma status_of_default_res: "\<exists>st. status_of (default_res r) = Inr st"
proof -
  obtain sc where sc: "get_prop (default_res r) ''statusCode'' = Inr sc"
    using get_prop_defined [OF default_res_not_nullish] by blast
  obtain sm where sm: "get_prop (default_res r) ''statusMessage'' = Inr sm"
    using get_prop_defined [OF default_res_not_nullish] by blast
  show ?thesis by (simp add: status_of_def sc sm)
qed

text \<open>The two branches of the normalizer.\<close>

lemma parse_success:
  assumes "success_path tonum e (default_res r) = Inr True"
  shows "parseRequestResults tonum e r b =
           sbind (success_results tonum b) (\<lambda>rs.
           sbind (status_of (default_res r)) (\<lambda>st.
             Inr \<lparr>err = Undefined, results = rs, status = st\<rparr>))"
  using assms by (simp add: parseRequestResults_def Let_def)

lemma parse_failure:
  assumes "success_path tonum e (default_res r) = Inr False"
  shows "\<exists>st. parseRequestResults tonum e r b =
           Inr \<lparr>err = (if nullish e then b else e), results = Undefined, status = st\<rparr>"
proof -
  obtain st where "status_of (default_res r) = Inr st"
    using status_of_default_res by blast
  with assms show ?thesis
    by (simp add: parseRequestResults_def Let_def)
qed

text \<open>
  The comparison \<^verbatim>\<open>res.statusCode == 200\<close> consults the conversion only for a status code
  that is a string or an object; the status codes of an HTTP response are numbers.
\<close>

lemma status_200_numeric:
  "get_prop res ''statusCode'' = Inr (Num k) \<Longrightarrow> status_200 tonum res = Inr (k = 200)"
  by (simp add: status_200_def)

text \<open>
  The normalizer throws only where the language's own conversion throws, inside one of
  the two loose comparisons; otherwise the callback receives an envelope.
\<close>

lemma loose_eq_num_throws:
  "loose_eq_num tonum v n = Inl x \<Longrightarrow> \<exists>w. tonum w = Inl x"
  by (cases v) (auto split: sum.splits)

lemma status_200_throws:
  "status_200 tonum res = Inl x \<Longrightarrow> \<not> nullish res \<Longrightarrow> \<exists>w. tonum w = Inl x"
  using get_prop_defined [of res "''statusCode''"]
  by (auto simp: status_200_def dest: loose_eq_num_throws)

lemma success_results_throws:
  assumes "success_results tonum b = Inl x"
  shows "\<exists>w. tonum w = Inl x"
proof (cases "nullish b")
  case True
  with assms show ?thesis by (simp add: success_results_def)
next
  case False
  then obtain rs where rs: "get_prop b ''results'' = Inr rs"
    using get_prop_defined by blast
  show ?thesis
  proof (cases "truthy rs")
    case True
    then obtain len where len: "get_prop rs ''length'' = Inr len"
      using get_prop_defined truthy_not_nullish by blast
    from assms False rs True len have "loose_eq_num tonum len 0 = Inl x"
      by (simp add: success_results_def sbind_def split: sum.splits)
    then show ?thesis by (rule loose_eq_num_throws)
  next
    case f: False
    with assms False rs show ?thesis by (simp add: success_results_def)
  qed
qed

lemma parse_throws_only_in_coercion:
  assumes "parseRequestResults tonum e r b = Inl x"
  shows "\<exists>w. tonum w = Inl x"
proof (cases "success_path tonum e (default_res r)")
  case (Inl y)
  with assms have "y = x"
    by (simp add: parseRequestResults_def Let_def)
  with Inl have "status_200 tonum (default_res r) = Inl x"
    by (simp add: success_path_def split: if_splits)
  then show ?thesis
    using status_200_throws default_res_not_nullish by blast
next
  case (Inr ok)
  obtain st where st: "status_of (default_res r) = Inr st"
    using status_of_default_res by blast
  show ?thesis
  proof (cases ok)
    case True
    with Inr assms st have "success_results tonum b = Inl x"
      by (simp add: parse_success sbind_def split: sum.splits)
    then show ?thesis by (rule success_results_throws)
  next
    case False
    with Inr assms parse_failure [of tonum e r b] show ?thesis by auto
  qed
qed

text \<open>The six operations other than \<^verbatim>\<open>create\<close> hand a request to the transport.\<close>

lemma other_operations_issue_request:
  "\<exists>rq. query \<sigma> this query_obj = Inr rq"
  "\<exists>rq. invoke \<sigma> this verb data = Inr rq"
  "\<exists>rq. update \<sigma> this update_obj swisUri = Inr rq"
  "\<exists>rq. read \<sigma> this swisUri = Inr rq"
  "\<exists>rq. remove \<sigma> this swisUri = Inr rq"
  "\<exists>rq. removeBulk \<sigma> this swisUris = Inr rq"
  by (simp_all add: query_def invoke_def update_def read_def remove_def removeBulk_def)

text \<open>The sibling operation \<^verbatim>\<open>invoke\<close> appends its parameter to its endpoint.\<close>

lemma invoke_request:
  "invoke \<sigma> this verb data =
     Inr \<lparr>meth = POST,
          url = i (getFullAddress (\<sigma> (options this))) @ verb,
          opts = \<lparr>json = data, auth = configuration.auth (\<sigma> (options this)),
                  rejectUnauthorized = False\<rparr>\<rparr>"
  by (simp add: invoke_def constructServerPostRequest_def)

lemma getFullAddress_default:
  "getFullAddress (module_load \<sigma> defaultOptions) =
     \<lparr>fa = ''https://127.0.0.1:17778/SolarWinds/InformationService/v3/Json/'',
      q = ''https://127.0.0.1:17778/SolarWinds/InformationService/v3/Json/Query'',
      c = ''https://127.0.0.1:17778/SolarWinds/InformationService/v3/Json/Create/'',
      i = ''https://127.0.0.1:17778/SolarWinds/InformationService/v3/Json/Invoke/'',
      bd = ''https://127.0.0.1:17778/SolarWinds/InformationService/v3/Json/BulkDelete''\<rparr>"
  by (simp add: getFullAddress_def Let_def module_load_def number_to_string_def
      nat_to_string.simps)

section \<open>The create operation\<close>

text \<open>
  C1. The specification has \<^verbatim>\<open>create\<close> issue a POST to the Create endpoint followed by
  the object name, with the data object as payload. The code names the undeclared
  identifier \<^verbatim>\<open>orionObject\<close> where its parameter \<^verbatim>\<open>object\<close> was meant: for every
  configuration, data object and object name, no request at all is issued.
\<close>

theorem create_never_issues_request:
  "create \<sigma> this data object \<noteq> Inr rq"
  by (simp add: create_def create_scope_def)

text \<open>
  C2. The specification has no operation raise an error synchronously. \<^verbatim>\<open>create\<close> does,
  on every input: evaluating the URL argument throws a ReferenceError to the caller
  before the transport is called, so the callback is never registered.
\<close>

theorem create_raises_ReferenceError:
  "create \<sigma> this data object = Inl (ReferenceError ''orionObject'')"
  by (simp add: create_def create_scope_def)

section \<open>Address builder and request options builder\<close>

text \<open>
  C3. For every configuration whose port is an integer of magnitude below \<open>2 ^ 53\<close> (the
  integers that a JavaScript number holds exactly; every TCP port is one) the address
  builder returns exactly five URLs: the base
  \<^verbatim>\<open>https://<server>:<port>/SolarWinds/InformationService/v3/Json/\<close>, where the port appears
  as its decimal numeral, and the base followed by \<^verbatim>\<open>Query\<close>, \<^verbatim>\<open>Create/\<close>, \<^verbatim>\<open>Invoke/\<close> and
  \<^verbatim>\<open>BulkDelete\<close>.
\<close>

theorem getFullAddress_urls:
  assumes "\<bar>port C\<bar> < 2 ^ 53"
  shows "integer_numeral (number_to_string (port C)) (port C)
       \<and> getFullAddress C =
           \<lparr>fa = ''https://'' @ server C @ '':'' @ number_to_string (port C)
                  @ ''/SolarWinds/InformationService/v3/Json/'',
            q = ''https://'' @ server C @ '':'' @ number_to_string (port C)
                  @ ''/SolarWinds/InformationService/v3/Json/Query'',
            c = ''https://'' @ server C @ '':'' @ number_to_string (port C)
                  @ ''/SolarWinds/InformationService/v3/Json/Create/'',
            i = ''https://'' @ server C @ '':'' @ number_to_string (port C)
                  @ ''/SolarWinds/InformationService/v3/Json/Invoke/'',
            bd = ''https://'' @ server C @ '':'' @ number_to_string (port C)
                  @ ''/SolarWinds/InformationService/v3/Json/BulkDelete''\<rparr>"
  by (simp add: getFullAddress_def Let_def integer_numeral_number_to_string)

theorem getFullAddress_urls_witness:
  "\<bar>port \<lparr>server = ''orion.example.org'', port = 17778,
           configuration.auth = \<lparr>username = ''admin'', password = ''secret''\<rparr>\<rparr>\<bar> < 2 ^ 53
   \<and> integer_numeral ''17778'' 17778
   \<and> getFullAddress \<lparr>server = ''orion.example.org'', port = 17778,
           configuration.auth = \<lparr>username = ''admin'', password = ''secret''\<rparr>\<rparr> =
       \<lparr>fa = ''https://orion.example.org:17778/SolarWinds/InformationService/v3/Json/'',
        q = ''https://orion.example.org:17778/SolarWinds/InformationService/v3/Json/Query'',
        c = ''https://orion.example.org:17778/SolarWinds/InformationService/v3/Json/Create/'',
        i = ''https://orion.example.org:17778/SolarWinds/InformationService/v3/Json/Invoke/'',
        bd = ''https://orion.example.org:17778/SolarWinds/InformationService/v3/Json/BulkDelete''\<rparr>"
proof -
  have h: "\<bar>port \<lparr>server = ''orion.example.org'', port = 17778,
           configuration.auth = \<lparr>username = ''admin'', password = ''secret''\<rparr>\<rparr>\<bar> < 2 ^ 53"
    by simp
  have n: "number_to_string 17778 = ''17778''"
    by (simp add: number_to_string_def nat_to_string.simps)
  show ?thesis
    using h getFullAddress_urls [OF h] by (simp add: n)
qed

text \<open>
  C4. For every configuration and payload the request options are exactly the payload as
  \<^verbatim>\<open>json\<close>, the configuration's credentials as \<^verbatim>\<open>auth\<close>, and \<^verbatim>\<open>rejectUnauthorized\<close> false;
  the builder takes no other argument, so the options do not depend on the operation.
\<close>

theorem constructServerPostRequest_fields:
  "constructServerPostRequest C P =
     \<lparr>json = P, auth = configuration.auth C, rejectUnauthorized = False\<rparr>"
  by (simp add: constructServerPostRequest_def)

section \<open>The result envelope\<close>

text \<open>
  C5. Whatever the transport error, the response and the body, an envelope handed to the
  callback has at most one of \<^verbatim>\<open>err\<close> and \<^verbatim>\<open>results\<close> defined: on the success path (no
  transport error and status code 200) \<^verbatim>\<open>err\<close> is undefined, on the failure path
  \<^verbatim>\<open>results\<close> is undefined.
\<close>

theorem envelope_err_results_exclusive:
  assumes "parseRequestResults tonum e r b = Inr env"
  shows "(err env = Undefined \<or> results env = Undefined)
       \<and> (if success_path tonum e (default_res r) = Inr True
          then err env = Undefined else results env = Undefined)"
proof (cases "success_path tonum e (default_res r)")
  case (Inl x)
  with assms show ?thesis
    by (simp add: parseRequestResults_def Let_def)
next
  case (Inr ok)
  show ?thesis
  proof (cases ok)
    case True
    with Inr assms show ?thesis
      by (auto simp: parse_success sbind_def split: sum.splits)
  next
    case False
    with Inr assms parse_failure [of tonum e r b] show ?thesis
      by auto
  qed
qed

theorem envelope_err_results_exclusive_witness:
  "parseRequestResults (\<lambda>v. Inr None) Null
      (Obj [(''statusCode'', Num 200), (''statusMessage'', Str ''OK'')])
      (Obj [(''NodeID'', Num 5)])
     = Inr \<lparr>err = Undefined, results = Obj [(''NodeID'', Num 5)],
            status = \<lparr>code = Num 200, message = Str ''OK''\<rparr>\<rparr>
   \<and> parseRequestResults (\<lambda>v. Inr None) Undefined
      (Obj [(''statusCode'', Num 500), (''statusMessage'', Str ''Internal Server Error'')])
      (Str ''boom'')
     = Inr \<lparr>err = Str ''boom'', results = Undefined,
            status = \<lparr>code = Num 500, message = Str ''Internal Server Error''\<rparr>\<rparr>
   \<and> (err \<lparr>err = Undefined, results = Obj [(''NodeID'', Num 5)],
            status = \<lparr>code = Num 200, message = Str ''OK''\<rparr>\<rparr> = Undefined
      \<or> results \<lparr>err = Undefined, results = Obj [(''NodeID'', Num 5)],
            status = \<lparr>code = Num 200, message = Str ''OK''\<rparr>\<rparr> = Undefined)
   \<and> (err \<lparr>err = Str ''boom'', results = Undefined,
            status = \<lparr>code = Num 500, message = Str ''Internal Server Error''\<rparr>\<rparr> = Undefined
      \<or> results \<lparr>err = Str ''boom'', results = Undefined,
            status = \<lparr>code = Num 500, message = Str ''Internal Server Error''\<rparr>\<rparr> = Undefined)"
proof -
  have ok: "parseRequestResults (\<lambda>v. Inr None) Null
      (Obj [(''statusCode'', Num 200), (''statusMessage'', Str ''OK'')])
      (Obj [(''NodeID'', Num 5)])
     = Inr \<lparr>err = Undefined, results = Obj [(''NodeID'', Num 5)],
            status = \<lparr>code = Num 200, message = Str ''OK''\<rparr>\<rparr>"
    by (simp add: parseRequestResults_def Let_def default_res_def success_path_def
        status_200_def status_of_def success_results_def)
  have ko: "parseRequestResults (\<lambda>v. Inr None) Undefined
      (Obj [(''statusCode'', Num 500), (''statusMessage'', Str ''Internal Server Error'')])
      (Str ''boom'')
     = Inr \<lparr>err = Str ''boom'', results = Undefined,
            status = \<lparr>code = Num 500, message = Str ''Internal Server Error''\<rparr>\<rparr>"
    by (simp add: parseRequestResults_def Let_def default_res_def success_path_def
        status_200_def status_of_def success_results_def)
  show ?thesis
    using ok ko envelope_err_results_exclusive [OF ok] envelope_err_results_exclusive [OF ko]
    by simp
qed

text \<open>
  C6. With no transport error, a response of status code 200 and a body whose \<^verbatim>\<open>results\<close>
  field is a list, the envelope carries \<^verbatim>\<open>null\<close> as results when the list is empty and the
  list itself otherwise; \<^verbatim>\<open>err\<close> is undefined and the status is the code and the message
  of the response.
\<close>

theorem success_results_list:
  assumes "\<not> truthy e"
    and "get_prop r ''statusCode'' = Inr (Num 200)"
    and "get_prop r ''statusMessage'' = Inr m"
    and "get_prop b ''results'' = Inr (Arr xs)"
  shows "parseRequestResults tonum e r b =
           Inr \<lparr>err = Undefined,
                results = (if xs = [] then Null else Arr xs),
                status = \<lparr>code = Num 200, message = m\<rparr>\<rparr>"
proof -
  have r: "default_res r = r"
    using get_prop_Inr_not_nullish [OF assms(2)] by (simp add: default_res_def)
  have b: "\<not> nullish b"
    using get_prop_Inr_not_nullish [OF assms(4)] .
  show ?thesis
    using assms b
    by (simp add: parseRequestResults_def Let_def r success_path_def status_200_def
        status_of_def success_results_def)
qed

theorem success_results_list_witness:
  "\<not> truthy Null
   \<and> get_prop (Obj [(''statusCode'', Num 200), (''statusMessage'', Str ''OK'')]) ''statusCode''
       = Inr (Num 200)
   \<and> get_prop (Obj [(''statusCode'', Num 200), (''statusMessage'', Str ''OK'')]) ''statusMessage''
       = Inr (Str ''OK'')
   \<and> get_prop (Obj [(''results'', Arr [])]) ''results'' = Inr (Arr [])
   \<and> get_prop (Obj [(''results'', Arr [Obj [(''a'', Num 1)]])]) ''results''
       = Inr (Arr [Obj [(''a'', Num 1)]])
   \<and> parseRequestResults (\<lambda>v. Inr None) Null
        (Obj [(''statusCode'', Num 200), (''statusMessage'', Str ''OK'')])
        (Obj [(''results'', Arr [])])
       = Inr \<lparr>err = Undefined, results = Null,
              status = \<lparr>code = Num 200, message = Str ''OK''\<rparr>\<rparr>
   \<and> parseRequestResults (\<lambda>v. Inr None) Null
        (Obj [(''statusCode'', Num 200), (''statusMessage'', Str ''OK'')])
        (Obj [(''results'', Arr [Obj [(''a'', Num 1)]])])
       = Inr \<lparr>err = Undefined, results = Arr [Obj [(''a'', Num 1)]],
              status = \<lparr>code = Num 200, message = Str ''OK''\<rparr>\<rparr>"
proof -
  have h1: "\<not> truthy Null" by simp
  have h2: "get_prop (Obj [(''statusCode'', Num 200), (''statusMessage'', Str ''OK'')])
              ''statusCode'' = Inr (Num 200)" by simp
  have h3: "get_prop (Obj [(''statusCode'', Num 200), (''statusMessage'', Str ''OK'')])
              ''statusMessage'' = Inr (Str ''OK'')" by simp
  have h4: "get_prop (Obj [(''results'', Arr [])]) ''results'' = Inr (Arr [])" by simp
  have h5: "get_prop (Obj [(''results'', Arr [Obj [(''a'', Num 1)]])]) ''results''
              = Inr (Arr [Obj [(''a'', Num 1)]])" by simp
  show ?thesis
    using h1 h2 h3 h4 h5
      success_results_list [where tonum = "\<lambda>v. Inr None", OF h1 h2 h3 h4]
      success_results_list [where tonum = "\<lambda>v. Inr None", OF h1 h2 h3 h5]
    by simp
qed

text \<open>
  C7. When a transport error is present (\<^verbatim>\<open>err\<close> is truthy, as every error object and
  every non-empty string is) or the status code is not 200, the envelope has \<^verbatim>\<open>results\<close>
  undefined, the status of the response, and as \<^verbatim>\<open>err\<close> the transport error, or the raw
  body when the transport error is \<^verbatim>\<open>null\<close> or \<^verbatim>\<open>undefined\<close>. A truthy error is never
  \<^verbatim>\<open>null\<close> or \<^verbatim>\<open>undefined\<close> (\<open>truthy_not_nullish\<close>), so a present error is always the one
  reported.
\<close>

theorem failure_path_envelope:
  assumes "truthy e \<or> status_200 tonum (default_res r) = Inr False"
  shows "\<exists>st. status_of (default_res r) = Inr st
         \<and> parseRequestResults tonum e r b =
             Inr \<lparr>err = (if nullish e then b else e), results = Undefined, status = st\<rparr>"
proof -
  have "success_path tonum e (default_res r) = Inr False"
    using assms by (auto simp: success_path_def)
  moreover obtain st where "status_of (default_res r) = Inr st"
    using status_of_default_res by blast
  ultimately show ?thesis
    by (simp add: parseRequestResults_def Let_def)
qed

theorem failure_path_envelope_witness:
  "(truthy (Str ''ETIMEDOUT'')
      \<or> status_200 (\<lambda>v. Inr None)
           (default_res (Obj [(''statusCode'', Num 200), (''statusMessage'', Str ''OK'')]))
         = Inr False)
   \<and> (truthy Null
      \<or> status_200 (\<lambda>v. Inr None)
           (default_res (Obj [(''statusCode'', Num 500),
                              (''statusMessage'', Str ''Internal Server Error'')]))
         = Inr False)
   \<and> parseRequestResults (\<lambda>v. Inr None) (Str ''ETIMEDOUT'')
        (Obj [(''statusCode'', Num 200), (''statusMessage'', Str ''OK'')]) (Str ''late'')
       = Inr \<lparr>err = Str ''ETIMEDOUT'', results = Undefined,
              status = \<lparr>code = Num 200, message = Str ''OK''\<rparr>\<rparr>
   \<and> parseRequestResults (\<lambda>v. Inr None) Null
        (Obj [(''statusCode'', Num 500), (''statusMessage'', Str ''Internal Server Error'')])
        (Str ''boom'')
       = Inr \<lparr>err = Str ''boom'', results = Undefined,
              status = \<lparr>code = Num 500, message = Str ''Internal Server Error''\<rparr>\<rparr>"
proof -
  have h1: "truthy (Str ''ETIMEDOUT'')
      \<or> status_200 (\<lambda>v. Inr None)
           (default_res (Obj [(''statusCode'', Num 200), (''statusMessage'', Str ''OK'')]))
         = Inr False"
    by simp
  have h2: "truthy Null
      \<or> status_200 (\<lambda>v. Inr None)
           (default_res (Obj [(''statusCode'', Num 500),
                              (''statusMessage'', Str ''Internal Server Error'')]))
         = Inr False"
    by (simp add: status_200_def default_res_def)
  show ?thesis
    using h1 h2
      failure_path_envelope [OF h1, where b = "Str ''late''"]
      failure_path_envelope [OF h2, where b = "Str ''boom''"]
    by (simp add: status_of_def default_res_def)
qed

text \<open>
  The branch test \<^verbatim>\<open>!err\<close> and the selection \<^verbatim>\<open>err != undefined\<close> differ only on an error
  value that is falsy without being \<^verbatim>\<open>null\<close> or \<^verbatim>\<open>undefined\<close> (the empty string, 0,
  \<^verbatim>\<open>false\<close>), which the transport does not deliver: such a value does not by itself
  select the failure path, and is reported as \<^verbatim>\<open>err\<close> when the status code selects it.
\<close>

lemma falsy_error_value:
  "parseRequestResults tonum (Str [])
     (Obj [(''statusCode'', Num 200), (''statusMessage'', Str ''OK'')]) (Str ''body'')
   = Inr \<lparr>err = Undefined, results = Str ''body'',
          status = \<lparr>code = Num 200, message = Str ''OK''\<rparr>\<rparr>"
  "parseRequestResults tonum (Str [])
     (Obj [(''statusCode'', Num 500), (''statusMessage'', Str ''Internal Server Error'')])
     (Str ''boom'')
   = Inr \<lparr>err = Str [], results = Undefined,
          status = \<lparr>code = Num 500, message = Str ''Internal Server Error''\<rparr>\<rparr>"
  by (simp_all add: parseRequestResults_def Let_def default_res_def success_path_def
      status_200_def status_of_def success_results_def)

text \<open>
  C8. A transport error delivered with no response object at all (\<^verbatim>\<open>res\<close> undefined or
  \<^verbatim>\<open>null\<close>) gives an envelope whose \<^verbatim>\<open>err\<close> is that error, whose \<^verbatim>\<open>results\<close> is undefined
  and whose status has code and message both undefined.
\<close>

theorem no_response_envelope:
  assumes "\<not> nullish e" and "nullish r"
  shows "parseRequestResults tonum e r b =
           Inr \<lparr>err = e, results = Undefined,
                status = \<lparr>code = Undefined, message = Undefined\<rparr>\<rparr>"
  using assms
  by (simp add: parseRequestResults_def Let_def success_path_def status_200_def
      status_of_def default_res_def)

theorem no_response_envelope_witness:
  "\<not> nullish (Str ''ECONNREFUSED'') \<and> nullish Undefined
   \<and> parseRequestResults (\<lambda>v. Inr None) (Str ''ECONNREFUSED'') Undefined Undefined
       = Inr \<lparr>err = Str ''ECONNREFUSED'', results = Undefined,
              status = \<lparr>code = Undefined, message = Undefined\<rparr>\<rparr>"
proof -
  have h1: "\<not> nullish (Str ''ECONNREFUSED'')" by simp
  have h2: "nullish Undefined" by simp
  show ?thesis
    using h1 h2
      no_response_envelope [OF h1 h2, where tonum = "\<lambda>v. Inr None" and b = Undefined]
    by simp
qed

text \<open>
  C10. On the success path, a body that is an object whose \<^verbatim>\<open>results\<close> field holds a falsy
  value (\<^verbatim>\<open>null\<close>, \<^verbatim>\<open>false\<close>, 0, the empty string; an empty list is truthy) is returned whole
  as the envelope's results: the field is tested for truthiness, not for existence.
\<close>

theorem falsy_results_returns_body:
  assumes "\<not> truthy e"
    and "get_prop r ''statusCode'' = Inr (Num 200)"
    and "get_prop r ''statusMessage'' = Inr m"
    and "map_of kvs ''results'' = Some v"
    and "\<not> truthy v"
  shows "parseRequestResults tonum e r (Obj kvs) =
           Inr \<lparr>err = Undefined, results = Obj kvs,
                status = \<lparr>code = Num 200, message = m\<rparr>\<rparr>"
proof -
  have r: "default_res r = r"
    using get_prop_Inr_not_nullish [OF assms(2)] by (simp add: default_res_def)
  show ?thesis
    using assms
    by (simp add: parseRequestResults_def Let_def r success_path_def status_200_def
        status_of_def success_results_def)
qed

theorem falsy_results_returns_body_witness:
  "\<not> truthy Null
   \<and> get_prop (Obj [(''statusCode'', Num 200), (''statusMessage'', Str ''OK'')]) ''statusCode''
       = Inr (Num 200)
   \<and> get_prop (Obj [(''statusCode'', Num 200), (''statusMessage'', Str ''OK'')]) ''statusMessage''
       = Inr (Str ''OK'')
   \<and> map_of [(''results'', Null)] ''results'' = Some Null
   \<and> map_of [(''results'', Num 0)] ''results'' = Some (Num 0) \<and> \<not> truthy (Num 0)
   \<and> map_of [(''results'', Str [])] ''results'' = Some (Str []) \<and> \<not> truthy (Str [])
   \<and> parseRequestResults (\<lambda>v. Inr None) Null
        (Obj [(''statusCode'', Num 200), (''statusMessage'', Str ''OK'')])
        (Obj [(''results'', Null)])
       = Inr \<lparr>err = Undefined, results = Obj [(''results'', Null)],
              status = \<lparr>code = Num 200, message = Str ''OK''\<rparr>\<rparr>
   \<and> parseRequestResults (\<lambda>v. Inr None) Null
        (Obj [(''statusCode'', Num 200), (''statusMessage'', Str ''OK'')])
        (Obj [(''results'', Num 0)])
       = Inr \<lparr>err = Undefined, results = Obj [(''results'', Num 0)],
              status = \<lparr>code = Num 200, message = Str ''OK''\<rparr>\<rparr>
   \<and> parseRequestResults (\<lambda>v. Inr None) Null
        (Obj [(''statusCode'', Num 200), (''statusMessage'', Str ''OK'')])
        (Obj [(''results'', Str [])])
       = Inr \<lparr>err = Undefined, results = Obj [(''results'', Str [])],
              status = \<lparr>code = Num 200, message = Str ''OK''\<rparr>\<rparr>"
proof -
  have h1: "\<not> truthy Null" by simp
  have h2: "get_prop (Obj [(''statusCode'', Num 200), (''statusMessage'', Str ''OK'')])
              ''statusCode'' = Inr (Num 200)" by simp
  have h3: "get_prop (Obj [(''statusCode'', Num 200), (''statusMessage'', Str ''OK'')])
              ''statusMessage'' = Inr (Str ''OK'')" by simp
  have n: "map_of [(''results'', Null)] ''results'' = Some Null" by simp
  have z: "map_of [(''results'', Num 0)] ''results'' = Some (Num 0)" by simp
  have z': "\<not> truthy (Num 0)" by simp
  have s: "map_of [(''results'', Str [])] ''results'' = Some (Str [])" by simp
  have s': "\<not> truthy (Str [])" by simp
  show ?thesis
    using h1 h2 h3 n z z' s s'
      falsy_results_returns_body [where tonum = "\<lambda>v. Inr None", OF h1 h2 h3 n h1]
      falsy_results_returns_body [where tonum = "\<lambda>v. Inr None", OF h1 h2 h3 z z']
      falsy_results_returns_body [where tonum = "\<lambda>v. Inr None", OF h1 h2 h3 s s']
    by simp
qed

section \<open>The default configuration\<close>

text \<open>
  C9. A client constructed with no options argument holds the module-level default
  configuration object, whose contents when the module is loaded are server 127.0.0.1,
  port 17778, user admin and the empty password. The object is shared: every such client
  holds the same address, so what is written to the configuration of one is read through
  the other.
\<close>

theorem default_configuration_shared:
  "getOptions (init None) = defaultOptions
   \<and> module_load \<sigma> (getOptions (init None)) =
       \<lparr>server = ''127.0.0.1'', port = 17778,
        configuration.auth = \<lparr>username = ''admin'', password = ''''\<rparr>\<rparr>
   \<and> getOptions (Orion None) = getOptions (init None)
   \<and> (\<sigma>(getOptions (Orion None) := cfg)) (getOptions (init None)) = cfg"
  by (simp add: getOptions_def init_def Orion_def module_load_def)

end
